theory Spec2Isabelle
  imports Main "HOL-Library.Word"
begin

section \<open>The contract backend of forta-node (ethereum/contract\_backend.go)\<close>

text \<open>
  The Go type \<open>contractBackend\<close> wraps a go-ethereum client (the embedded
  \<open>ContractBackend\<close>, called the delegate below) and intercepts three of its methods:
  \<open>SuggestGasPrice\<close>, \<open>PendingNonceAt\<close> and \<open>SendTransaction\<close>. The embedding is
  shallow: every method is a function from the receiver's fields and the values the
  environment supplies to the values returned, the updated fields and the list of calls
  made to the delegate.

  \<^item> \<open>uint64\<close> is \<open>64 word\<close>: \<open>+\<close> and \<open>-\<close> wrap around, \<open><\<close> is the unsigned order.
  \<^item> \<open>*big.Int\<close> is \<open>int option\<close> where the pointer may be nil (the two fields), and
    \<open>int\<close> where the code dereferences it. The numbers are modelled by value: the
    wrapper itself never writes through a pointer it has handed out.
  \<^item> \<open>time.Time\<close> is an \<open>int\<close> of nanoseconds counted from the zero time;
    \<open>time.Duration\<close> is an \<open>int\<close> kept in the range of \<open>int64\<close>.
  \<^item> A Go \<open>error\<close> is a value carrying its message; \<open>nil\<close> is \<open>None\<close>.
  \<^item> Logging has no effect on the fields and is left out, except where building the log
    entry can panic.
\<close>

subsection \<open>Data\<close>

type_synonym uint64 = "64 word"
type_synonym Address = "160 word"
type_synonym Time = int
type_synonym Duration = int

datatype error = GoError string

fun Error :: "error \<Rightarrow> string" where
  "Error (GoError msg) = msg"

datatype panic = NilPointerDereference

text \<open>
  \<open>types.Transaction\<close>, with the fields that \<open>getTxLogger\<close> and \<open>incrementNonce\<close> read.
  \<open>To\<close> is nil for a contract creation.
\<close>

record Transaction =
  To :: "Address option"
  Nonce :: uint64
  Gas :: uint64
  GasPrice :: int
  Hash :: "256 word"

text \<open>The fields of \<open>contractBackend\<close> other than the embedded delegate.\<close>

record contractBackend =
  localNonce :: uint64
  lastServerNonce :: uint64
  gasPrice :: "int option"
  gasPriceUpdated :: Time
  maxPrice :: "int option"

text \<open>
  The calls a method makes to the delegate are returned as a list, so that "no network
  call" is a statement about the result. The delegate's answer to the one call a method
  may make is an argument of the method.
\<close>

datatype call =
  SuggestGasPriceCall
  | PendingNonceAtCall Address
  | SendTransactionCall Transaction

definition maxNonceDrift :: uint64 where
  "maxNonceDrift = 50"

definition errStrReplacementTx :: string where
  "errStrReplacementTx = ''replacement transaction underpriced''"

subsection \<open>Construction\<close>

text \<open>
  \<open>NewContractBackend\<close> sets \<open>maxPrice\<close> and leaves every other field at its zero
  value.
\<close>

definition NewContractBackend :: "int option \<Rightarrow> contractBackend" where
  "NewContractBackend mp =
     \<lparr> localNonce = 0, lastServerNonce = 0, gasPrice = None, gasPriceUpdated = 0,
       maxPrice = mp \<rparr>"

subsection \<open>Time\<close>

definition Nanosecond :: Duration where
  "Nanosecond = 1"

definition Second :: Duration where
  "Second = 1000000000 * Nanosecond"

definition Minute :: Duration where
  "Minute = 60 * Second"

definition minDuration :: Duration where
  "minDuration = - (2 ^ 63)"

definition maxDuration :: Duration where
  "maxDuration = 2 ^ 63 - 1"

text \<open>
  \<open>time.Since t\<close> is \<open>time.Now().Sub(t)\<close>; \<open>Sub\<close> saturates at the ends of
  \<open>int64\<close>. The first argument is the reading of the clock.
\<close>

definition Since :: "Time \<Rightarrow> Time \<Rightarrow> Duration" where
  "Since now t =
     (let d = now - t in
      if d < minDuration then minDuration
      else if maxDuration < d then maxDuration
      else d)"

subsection \<open>Big integers\<close>

text \<open>\<open>x.Cmp(y)\<close> of \<open>math/big\<close>: -1, 0 or 1.\<close>

definition Cmp :: "int \<Rightarrow> int \<Rightarrow> int" where
  "Cmp x y = (if x < y then - 1 else if x = y then 0 else 1)"

text \<open>
  Modelled from the spec: \<open>utils.AddPercentage\<close> is a function of this repository whose
  file is not among the sources at hand. \<open>SuggestGasPrice\<close> calls it as
  \<open>utils.AddPercentage(gp, 10)\<close> and drops what it returns, so it updates \<open>gp\<close> in
  place. The specification says: "Apply a fixed 10% markup to the base suggestion" and
  "the returned price equals g * 1.10 rounded per integer arithmetic rules", with the
  scenario of a base suggestion 95 marked up to 104.5 and compared to a ceiling of 100.
  The model adds the percentage of the number, with the quotient rounded down; the
  function returns the new value of \<open>gp\<close>.
\<close>

definition AddPercentage :: "int \<Rightarrow> int \<Rightarrow> int" where
  "AddPercentage num percentage = num + (num * percentage) div 100"

subsection \<open>SuggestGasPrice\<close>

text \<open>
  \<open>SuggestGasPrice cb t0 t1 reply\<close>: \<open>t0\<close> is the clock as \<open>time.Since\<close> reads it on
  entry, \<open>t1\<close> the clock as \<open>time.Now()\<close> reads it before the price is cached, and
  \<open>reply\<close> what the delegate's \<open>SuggestGasPrice\<close> answers if it is called: \<open>Inl err\<close>
  for a non-nil error, \<open>Inr gp\<close> for a price with a nil error. The result is the
  returned pair (\<open>Inl err\<close> for \<open>nil, err\<close>; \<open>Inr p\<close> for \<open>p, nil\<close>), the fields
  after the call, and the calls made to the delegate.
\<close>

definition SuggestGasPrice ::
  "contractBackend \<Rightarrow> Time \<Rightarrow> Time \<Rightarrow> error + int \<Rightarrow> (error + int) \<times> contractBackend \<times> call list"
where
  "SuggestGasPrice cb t0 t1 reply =
     (if gasPrice cb \<noteq> None \<and> Since t0 (gasPriceUpdated cb) < 1 * Minute then
        (Inr (the (gasPrice cb)), cb, [])
      else
        (case reply of
           Inl err \<Rightarrow> (Inl err, cb, [SuggestGasPriceCall])
         | Inr gp0 \<Rightarrow>
             (let gp = AddPercentage gp0 10 in
              if maxPrice cb \<noteq> None \<and> Cmp gp (the (maxPrice cb)) = 1 then
                (Inr (the (maxPrice cb)), cb, [SuggestGasPriceCall])
              else
                (Inr gp, cb\<lparr>gasPriceUpdated := t1, gasPrice := Some gp\<rparr>,
                 [SuggestGasPriceCall]))))"

subsection \<open>Nonce tracking\<close>

definition incrementNonce :: "contractBackend \<Rightarrow> Transaction \<Rightarrow> contractBackend" where
  "incrementNonce cb tx =
     (let newNonce = Nonce tx + 1 in
      if newNonce > localNonce cb then cb\<lparr>localNonce := newNonce\<rparr> else cb)"

definition resetNonce :: "contractBackend \<Rightarrow> contractBackend" where
  "resetNonce cb =
     (if lastServerNonce cb < localNonce cb then cb\<lparr>localNonce := lastServerNonce cb\<rparr>
      else cb)"

text \<open>
  \<open>PendingNonceAt cb account reply\<close>: \<open>reply\<close> is the pair the delegate's
  \<open>PendingNonceAt\<close> returns, a number and an error that may be nil. The pair is assigned
  to \<open>cb.lastServerNonce\<close> and \<open>err\<close> in one statement, before \<open>err\<close> is tested. The
  result is the returned pair, the fields after the call, and the calls made.
\<close>

definition PendingNonceAt ::
  "contractBackend \<Rightarrow> Address \<Rightarrow> uint64 \<times> error option \<Rightarrow>
     (uint64 \<times> error option) \<times> contractBackend \<times> call list"
where
  "PendingNonceAt cb account reply =
     (let cb1 = cb\<lparr>lastServerNonce := fst reply\<rparr> in
      case snd reply of
        Some err \<Rightarrow> ((0, Some err), cb1, [PendingNonceAtCall account])
      | None \<Rightarrow>
          if localNonce cb1 = 0 then
            ((lastServerNonce cb1, None), cb1, [PendingNonceAtCall account])
          else if localNonce cb1 > lastServerNonce cb1
                  \<and> localNonce cb1 - lastServerNonce cb1 \<ge> maxNonceDrift then
            (let cb2 = resetNonce cb1 in
             ((lastServerNonce cb2, None), cb2, [PendingNonceAtCall account]))
          else
            ((localNonce cb1, None), cb1, [PendingNonceAtCall account]))"

subsection \<open>SendTransaction\<close>

definition isReplacementErr :: "error \<Rightarrow> bool" where
  "isReplacementErr err = (Error err = errStrReplacementTx)"

text \<open>
  \<open>getTxLogger\<close> builds the log entry of a transaction. \<open>tx.To().Hex()\<close> calls a
  method with a value receiver through the pointer \<open>tx.To()\<close>, which panics when the
  pointer is nil. The entry itself is not modelled.
\<close>

definition getTxLogger :: "Transaction \<Rightarrow> panic + unit" where
  "getTxLogger tx = (case To tx of None \<Rightarrow> Inl NilPointerDereference | Some a \<Rightarrow> Inr ())"

text \<open>
  \<open>SendTransaction cb tx reply\<close>: \<open>reply\<close> is the error the delegate's
  \<open>SendTransaction\<close> returns, \<open>None\<close> for nil. The result is \<open>Inl\<close> for a panic, and
  otherwise the returned error, the fields after the call, and the calls made.
\<close>

definition SendTransaction ::
  "contractBackend \<Rightarrow> Transaction \<Rightarrow> error option \<Rightarrow>
     panic + (error option \<times> contractBackend \<times> call list)"
where
  "SendTransaction cb tx reply =
     (case getTxLogger tx of
        Inl p \<Rightarrow> Inl p
      | Inr logger \<Rightarrow>
          (case reply of
             Some err \<Rightarrow>
               (let cb1 = (if isReplacementErr err then resetNonce cb else cb) in
                Inr (Some err, cb1, [SendTransactionCall tx]))
           | None \<Rightarrow> Inr (None, incrementNonce cb tx, [SendTransactionCall tx])))"

text \<open>
  The condition kept between calls for the ceiling: a cached price, if there is one, is at
  most the configured maximum, if there is one.
\<close>

definition cacheWithinMax :: "contractBackend \<Rightarrow> bool" where
  "cacheWithinMax cb =
     (case maxPrice cb of
        None \<Rightarrow> True
      | Some m \<Rightarrow> (case gasPrice cb of None \<Rightarrow> True | Some p \<Rightarrow> p \<le> m))"

section \<open>Properties\<close>

subsection \<open>Auxiliary facts\<close>

lemma Since_less_Minute: "Since now t < Minute \<longleftrightarrow> now - t < 60 * 1000000000"
  by (simp add: Since_def Let_def Minute_def Second_def Nanosecond_def
      minDuration_def maxDuration_def)

lemma Cmp_eq_1: "Cmp x y = 1 \<longleftrightarrow> y < x"
  by (simp add: Cmp_def)

lemma resetNonce_min:
  "resetNonce cb = cb\<lparr>localNonce := min (localNonce cb) (lastServerNonce cb)\<rparr>"
  by (simp add: resetNonce_def min_def)

lemma incrementNonce_max:
  "incrementNonce cb tx = cb\<lparr>localNonce := max (localNonce cb) (Nonce tx + 1)\<rparr>"
  by (simp add: incrementNonce_def Let_def max_def)

text \<open>
  The guard of the second case of \<open>PendingNonceAt\<close> compares first and subtracts
  second, so the subtraction never wraps: the guard is the drift over the integers.
\<close>

lemma nonce_drift_uint:
  fixes l s :: uint64
  assumes "50 \<le> uint l - uint s"
  shows "s < l \<and> maxNonceDrift \<le> l - s"
proof -
  from assms have lt: "s < l" by (simp add: word_less_def)
  then have "s \<le> l" by (simp add: less_imp_le)
  then have "uint (l - s) = uint l - uint s" by (simp add: uint_minus_simple_alt)
  with assms have "maxNonceDrift \<le> l - s" by (simp add: word_le_def maxNonceDrift_def)
  with lt show ?thesis by simp
qed

lemma nonce_drift_word:
  fixes l s :: uint64
  assumes "s < l" and "maxNonceDrift \<le> l - s"
  shows "50 \<le> uint l - uint s"
proof -
  from assms(1) have "s \<le> l" by (simp add: less_imp_le)
  then have "uint (l - s) = uint l - uint s" by (simp add: uint_minus_simple_alt)
  with assms(2) show ?thesis by (simp add: word_le_def maxNonceDrift_def)
qed

lemma nonce_drift_iff:
  fixes l s :: uint64
  shows "(s < l \<and> maxNonceDrift \<le> l - s) \<longleftrightarrow> 50 \<le> uint l - uint s"
  using nonce_drift_uint [of l s] nonce_drift_word [of s l] by blast

text \<open>Adding one to a \<open>uint64\<close> below the largest value does not wrap.\<close>

lemma uint64_succ:
  fixes n :: uint64
  assumes "n \<noteq> 18446744073709551615"
  shows "uint (n + 1) = uint n + 1"
proof -
  have "uint n \<noteq> uint (18446744073709551615 :: uint64)"
    using assms by (simp only: word_uint_eq_iff [symmetric] not_False_eq_True)
  then have "uint n \<noteq> 18446744073709551615" by simp
  moreover have "uint n < 18446744073709551616" using uint_lt2p [of n] by simp
  ultimately have "uint n + uint (1 :: uint64) < 2 ^ LENGTH(64)" by simp
  then have "uint (n + 1) = uint n + uint (1 :: uint64)" by (simp only: uint_add_lem)
  then show ?thesis by simp
qed

lemma uint64_max:
  fixes a b :: uint64
  shows "uint (max a b) = max (uint a) (uint b)"
  by (simp add: max_def word_le_def)

text \<open>Without the comparison the subtraction alone would wrap: 1 - 10 is far above 50.\<close>

lemma nonce_drift_guard_needed: "maxNonceDrift \<le> (1 :: uint64) - 10 \<and> \<not> (10 :: uint64) < 1"
  by (simp add: maxNonceDrift_def)

subsection \<open>PendingNonceAt\<close>

text \<open>What a failing query does, for every state and every reply with an error.\<close>

lemma PendingNonceAt_failure:
  "PendingNonceAt cb account (v, Some err) =
     ((0, Some err), cb\<lparr>lastServerNonce := v\<rparr>, [PendingNonceAtCall account])"
  by (simp add: PendingNonceAt_def)

lemma PendingNonceAt_failure_frame:
  "localNonce (fst (snd (PendingNonceAt cb account (v, Some err)))) = localNonce cb
   \<and> gasPrice (fst (snd (PendingNonceAt cb account (v, Some err)))) = gasPrice cb
   \<and> gasPriceUpdated (fst (snd (PendingNonceAt cb account (v, Some err)))) = gasPriceUpdated cb
   \<and> maxPrice (fst (snd (PendingNonceAt cb account (v, Some err)))) = maxPrice cb"
  by (simp add: PendingNonceAt_failure)

text \<open>The third case: local tracking wins while the drift is below the threshold.\<close>

lemma PendingNonceAt_local:
  assumes "localNonce cb \<noteq> 0" and "uint (localNonce cb) - uint s < 50"
  shows "PendingNonceAt cb account (s, None) =
           ((localNonce cb, None), cb\<lparr>lastServerNonce := s\<rparr>, [PendingNonceAtCall account])"
proof -
  from assms(2) have "\<not> (s < localNonce cb \<and> maxNonceDrift \<le> localNonce cb - s)"
    by (simp add: nonce_drift_iff)
  with assms(1) show ?thesis by (auto simp add: PendingNonceAt_def)
qed

text \<open>
  Claim C1, as stated: on the first successful call to \<open>PendingNonceAt\<close> after
  construction, while \<open>localNonce\<close> is still zero, the call returns the server's pending
  nonce and \<open>localNonce\<close> is set to that value. The first half holds, the second does
  not: the first case of the switch returns \<open>cb.lastServerNonce\<close> and assigns nothing.
  On a fresh backend whose server answers 7 the call returns 7 and \<open>localNonce\<close> is
  still 0.
\<close>

theorem PendingNonceAt_first_time_not_adopted:
  "localNonce (NewContractBackend None) = 0
   \<and> fst (PendingNonceAt (NewContractBackend None) 1 (7, None)) = (7, None)
   \<and> localNonce (fst (snd (PendingNonceAt (NewContractBackend None) 1 (7, None)))) = 0
   \<and> localNonce (fst (snd (PendingNonceAt (NewContractBackend None) 1 (7, None)))) \<noteq> 7"
  by (simp add: PendingNonceAt_def NewContractBackend_def)

text \<open>
  Claim C1, amended: on a successful call to \<open>PendingNonceAt\<close> while \<open>localNonce\<close> is
  zero, the call returns the server's pending nonce \<open>s\<close>, records it in
  \<open>lastServerNonce\<close>, asks the delegate once and changes no other field; \<open>localNonce\<close>
  stays zero.
\<close>

theorem PendingNonceAt_first_time:
  assumes "localNonce cb = 0"
  shows "PendingNonceAt cb account (s, None) =
           ((s, None), cb\<lparr>lastServerNonce := s\<rparr>, [PendingNonceAtCall account])
         \<and> localNonce (fst (snd (PendingNonceAt cb account (s, None)))) = 0
         \<and> lastServerNonce (fst (snd (PendingNonceAt cb account (s, None)))) = s"
  using assms by (simp add: PendingNonceAt_def)

theorem PendingNonceAt_first_time_witness:
  "localNonce (NewContractBackend (Some 100)) = 0
   \<and> PendingNonceAt (NewContractBackend (Some 100)) 1 (7, None) =
       ((7, None),
        \<lparr> localNonce = 0, lastServerNonce = 7, gasPrice = None, gasPriceUpdated = 0,
          maxPrice = Some 100 \<rparr>,
        [PendingNonceAtCall 1])"
  using PendingNonceAt_first_time [of "NewContractBackend (Some 100)" 1 7]
  by (simp add: NewContractBackend_def)

text \<open>
  Claim C2: when the delegate's query fails, \<open>PendingNonceAt\<close> propagates the error and
  leaves \<open>localNonce\<close>, \<open>lastServerNonce\<close> and the gas-price cache as they were. The
  error is propagated and \<open>localNonce\<close> and the cache are kept
  (\<open>PendingNonceAt_failure_frame\<close>), but \<open>lastServerNonce\<close> is not: the delegate's
  pair is assigned to the field before the error is tested. With \<open>lastServerNonce = 8\<close>
  and a delegate that answers 0 together with an error, the field is 0 after the call.
\<close>

theorem PendingNonceAt_failure_overwrites_lastServerNonce:
  "PendingNonceAt
     \<lparr> localNonce = 10, lastServerNonce = 8, gasPrice = Some 104, gasPriceUpdated = 5,
       maxPrice = None \<rparr>
     1 (0, Some (GoError ''connection refused''))
   = ((0, Some (GoError ''connection refused'')),
      \<lparr> localNonce = 10, lastServerNonce = 0, gasPrice = Some 104, gasPriceUpdated = 5,
        maxPrice = None \<rparr>,
      [PendingNonceAtCall 1])"
  by (simp add: PendingNonceAt_def)

text \<open>
  Claim C3: when the delegate's query succeeds with server nonce \<open>s\<close>, \<open>localNonce\<close>
  is not zero and \<open>localNonce - s \<ge> 50\<close>, the call returns \<open>s\<close> and \<open>localNonce\<close>
  afterwards is \<open>min localNonce s\<close>: it is pulled down to the server value and not
  increased. The difference is the drift, read over the integers; by
  \<open>nonce_drift_iff\<close> this is the guard of the code.
\<close>

theorem PendingNonceAt_drift_reset:
  assumes "localNonce cb \<noteq> 0" and "50 \<le> uint (localNonce cb) - uint s"
  shows "PendingNonceAt cb account (s, None) =
           ((s, None),
            cb\<lparr>lastServerNonce := s, localNonce := min (localNonce cb) s\<rparr>,
            [PendingNonceAtCall account])
         \<and> localNonce (fst (snd (PendingNonceAt cb account (s, None)))) = min (localNonce cb) s
         \<and> localNonce (fst (snd (PendingNonceAt cb account (s, None)))) = s
         \<and> localNonce (fst (snd (PendingNonceAt cb account (s, None)))) \<le> localNonce cb"
proof -
  from assms(2) have d: "s < localNonce cb \<and> maxNonceDrift \<le> localNonce cb - s"
    by (rule nonce_drift_uint)
  then have le: "s \<le> localNonce cb" by (simp add: less_imp_le)
  then have "min (localNonce cb) s = s" by (rule min_absorb2)
  with assms(1) d le show ?thesis
    by (simp add: PendingNonceAt_def resetNonce_min)
qed

theorem PendingNonceAt_drift_reset_witness:
  "localNonce ((NewContractBackend None)\<lparr>localNonce := 60\<rparr>) \<noteq> 0
   \<and> (50 :: int) \<le> uint (60 :: uint64) - uint (5 :: uint64)
   \<and> PendingNonceAt ((NewContractBackend None)\<lparr>localNonce := 60\<rparr>) 1 (5, None) =
       ((5, None),
        \<lparr> localNonce = 5, lastServerNonce = 5, gasPrice = None, gasPriceUpdated = 0,
          maxPrice = None \<rparr>,
        [PendingNonceAtCall 1])"
  using PendingNonceAt_drift_reset [of "(NewContractBackend None)\<lparr>localNonce := 60\<rparr>" 5 1]
  by (simp add: NewContractBackend_def)

subsection \<open>SendTransaction\<close>

text \<open>A contract creation has no recipient: the log entry cannot be built and no send happens.\<close>

lemma SendTransaction_contract_creation:
  "To tx = None \<Longrightarrow> SendTransaction cb tx reply = Inl NilPointerDereference"
  by (simp add: SendTransaction_def getTxLogger_def)

text \<open>
  Where the value stored by a failed query goes: with \<open>localNonce = 10\<close> and a last
  server nonce of 8, a query that fails with the pair (0, error) followed by a send that
  fails with the replacement error resets \<open>localNonce\<close> to 0, not to 8.
\<close>

lemma failed_query_then_replacement_error:
  "SendTransaction
     (fst (snd (PendingNonceAt
        \<lparr> localNonce = 10, lastServerNonce = 8, gasPrice = None, gasPriceUpdated = 0,
          maxPrice = None \<rparr>
        1 (0, Some (GoError ''connection refused'')))))
     \<lparr> To = Some 2, Nonce = 10, Gas = 21000, GasPrice = 104, Hash = 3 \<rparr>
     (Some (GoError ''replacement transaction underpriced''))
   = Inr (Some (GoError ''replacement transaction underpriced''),
          \<lparr> localNonce = 0, lastServerNonce = 0, gasPrice = None, gasPriceUpdated = 0,
            maxPrice = None \<rparr>,
          [SendTransactionCall \<lparr> To = Some 2, Nonce = 10, Gas = 21000, GasPrice = 104, Hash = 3 \<rparr>])"
  by (simp add: PendingNonceAt_def SendTransaction_def getTxLogger_def isReplacementErr_def
      errStrReplacementTx_def resetNonce_def)

text \<open>
  Claim C4: when the delegate's send fails with an error whose message is exactly
  "replacement transaction underpriced", \<open>localNonce\<close> afterwards is
  \<open>min localNonce lastServerNonce\<close> and the delegate's error is returned unchanged. The
  delegate's send is reached when the transaction has a recipient.
\<close>

theorem SendTransaction_replacement_error:
  assumes "To tx = Some a" and "Error err = ''replacement transaction underpriced''"
  shows "SendTransaction cb tx (Some err) =
           Inr (Some err,
                cb\<lparr>localNonce := min (localNonce cb) (lastServerNonce cb)\<rparr>,
                [SendTransactionCall tx])"
  using assms
  by (simp add: SendTransaction_def getTxLogger_def isReplacementErr_def
      errStrReplacementTx_def resetNonce_min)

theorem SendTransaction_replacement_error_witness:
  "To \<lparr> To = Some 2, Nonce = 12, Gas = 21000, GasPrice = 104, Hash = 3 \<rparr> = Some 2
   \<and> Error (GoError ''replacement transaction underpriced'') =
       ''replacement transaction underpriced''
   \<and> SendTransaction
       \<lparr> localNonce = 12, lastServerNonce = 9, gasPrice = None, gasPriceUpdated = 0,
         maxPrice = None \<rparr>
       \<lparr> To = Some 2, Nonce = 12, Gas = 21000, GasPrice = 104, Hash = 3 \<rparr>
       (Some (GoError ''replacement transaction underpriced''))
     = Inr (Some (GoError ''replacement transaction underpriced''),
            \<lparr> localNonce = 9, lastServerNonce = 9, gasPrice = None, gasPriceUpdated = 0,
              maxPrice = None \<rparr>,
            [SendTransactionCall
               \<lparr> To = Some 2, Nonce = 12, Gas = 21000, GasPrice = 104, Hash = 3 \<rparr>])"
  using SendTransaction_replacement_error
    [of "\<lparr> To = Some 2, Nonce = 12, Gas = 21000, GasPrice = 104, Hash = 3 \<rparr>" 2
        "GoError ''replacement transaction underpriced''"
        "\<lparr> localNonce = 12, lastServerNonce = 9, gasPrice = None, gasPriceUpdated = 0,
           maxPrice = None \<rparr>"]
  by simp

text \<open>Any other error leaves every field as it was.\<close>

lemma SendTransaction_other_error:
  assumes "To tx = Some a" and "Error err \<noteq> ''replacement transaction underpriced''"
  shows "SendTransaction cb tx (Some err) = Inr (Some err, cb, [SendTransactionCall tx])"
  using assms
  by (simp add: SendTransaction_def getTxLogger_def isReplacementErr_def errStrReplacementTx_def)

text \<open>
  Claim C5: when the delegate's send of a transaction with nonce \<open>n\<close> succeeds, the call
  returns no error and \<open>localNonce\<close> afterwards is \<open>max localNonce (n + 1)\<close>; in
  particular \<open>localNonce\<close> does not move backward. \<open>n + 1\<close> is the addition of the code,
  on \<open>uint64\<close>; for every \<open>n\<close> below the largest \<open>uint64\<close> it is also the maximum over
  the integers.
\<close>

theorem SendTransaction_success:
  assumes "To tx = Some a"
  shows "SendTransaction cb tx None =
           Inr (None,
                cb\<lparr>localNonce := max (localNonce cb) (Nonce tx + 1)\<rparr>,
                [SendTransactionCall tx])
         \<and> localNonce cb \<le> max (localNonce cb) (Nonce tx + 1)
         \<and> (Nonce tx \<noteq> 18446744073709551615 \<longrightarrow>
              uint (max (localNonce cb) (Nonce tx + 1)) =
                max (uint (localNonce cb)) (uint (Nonce tx) + 1))"
proof -
  from assms have send:
    "SendTransaction cb tx None =
       Inr (None, cb\<lparr>localNonce := max (localNonce cb) (Nonce tx + 1)\<rparr>,
            [SendTransactionCall tx])"
    by (simp add: SendTransaction_def getTxLogger_def incrementNonce_max)
  have "uint (max (localNonce cb) (Nonce tx + 1)) =
          max (uint (localNonce cb)) (uint (Nonce tx) + 1)"
    if "Nonce tx \<noteq> 18446744073709551615"
    using that by (simp add: uint64_max uint64_succ)
  with send show ?thesis by simp
qed

theorem SendTransaction_success_witness:
  "To \<lparr> To = Some 2, Nonce = 7, Gas = 21000, GasPrice = 104, Hash = 3 \<rparr> = Some 2
   \<and> SendTransaction
       \<lparr> localNonce = 7, lastServerNonce = 7, gasPrice = None, gasPriceUpdated = 0,
         maxPrice = None \<rparr>
       \<lparr> To = Some 2, Nonce = 7, Gas = 21000, GasPrice = 104, Hash = 3 \<rparr> None
     = Inr (None,
            \<lparr> localNonce = 8, lastServerNonce = 7, gasPrice = None, gasPriceUpdated = 0,
              maxPrice = None \<rparr>,
            [SendTransactionCall
               \<lparr> To = Some 2, Nonce = 7, Gas = 21000, GasPrice = 104, Hash = 3 \<rparr>])"
  using SendTransaction_success
    [of "\<lparr> To = Some 2, Nonce = 7, Gas = 21000, GasPrice = 104, Hash = 3 \<rparr>" 2
        "\<lparr> localNonce = 7, lastServerNonce = 7, gasPrice = None, gasPriceUpdated = 0,
           maxPrice = None \<rparr>"]
  by simp

text \<open>
  Claim C10: when the send of a transaction whose nonce is the largest \<open>uint64\<close>,
  \<open>2 ^ 64 - 1\<close>, succeeds, \<open>nonce + 1\<close> wraps around to 0, the test
  \<open>newNonce > localNonce\<close> is false and \<open>localNonce\<close> is left as it was: over the
  integers the rule "advance to the maximum of \<open>localNonce\<close> and \<open>n + 1\<close>" does not
  hold there, since \<open>localNonce\<close> stays below that maximum.
\<close>

theorem SendTransaction_max_nonce_wraps:
  assumes "To tx = Some a" and "Nonce tx = 18446744073709551615"
  shows "Nonce tx + 1 = 0
         \<and> \<not> Nonce tx + 1 > localNonce cb
         \<and> SendTransaction cb tx None = Inr (None, cb, [SendTransactionCall tx])
         \<and> uint (localNonce cb) < max (uint (localNonce cb)) (uint (Nonce tx) + 1)"
proof -
  from assms(2) have wrap: "Nonce tx + 1 = 0" by simp
  then have "incrementNonce cb tx = cb" by (simp add: incrementNonce_def)
  with assms(1) have send:
    "SendTransaction cb tx None = Inr (None, cb, [SendTransactionCall tx])"
    by (simp add: SendTransaction_def getTxLogger_def)
  from assms(2) have "uint (Nonce tx) + 1 = 2 ^ 64" by simp
  with uint_lt2p [of "localNonce cb"]
  have "uint (localNonce cb) < max (uint (localNonce cb)) (uint (Nonce tx) + 1)" by simp
  with wrap send show ?thesis by simp
qed

theorem SendTransaction_max_nonce_wraps_witness:
  "To \<lparr> To = Some 2, Nonce = 18446744073709551615, Gas = 21000, GasPrice = 104, Hash = 3 \<rparr>
     = Some 2
   \<and> Nonce \<lparr> To = Some 2, Nonce = 18446744073709551615, Gas = 21000, GasPrice = 104, Hash = 3 \<rparr>
     = 18446744073709551615
   \<and> SendTransaction
       \<lparr> localNonce = 9, lastServerNonce = 9, gasPrice = None, gasPriceUpdated = 0,
         maxPrice = None \<rparr>
       \<lparr> To = Some 2, Nonce = 18446744073709551615, Gas = 21000, GasPrice = 104, Hash = 3 \<rparr>
       None
     = Inr (None,
            \<lparr> localNonce = 9, lastServerNonce = 9, gasPrice = None, gasPriceUpdated = 0,
              maxPrice = None \<rparr>,
            [SendTransactionCall
               \<lparr> To = Some 2, Nonce = 18446744073709551615, Gas = 21000, GasPrice = 104,
                 Hash = 3 \<rparr>])"
  using SendTransaction_max_nonce_wraps
    [of "\<lparr> To = Some 2, Nonce = 18446744073709551615, Gas = 21000, GasPrice = 104, Hash = 3 \<rparr>"
        2
        "\<lparr> localNonce = 9, lastServerNonce = 9, gasPrice = None, gasPriceUpdated = 0,
           maxPrice = None \<rparr>"]
  by simp

subsection \<open>SuggestGasPrice\<close>

text \<open>A failing query of the delegate leaves every field as it was.\<close>

lemma SuggestGasPrice_failure:
  assumes "gasPrice cb = None \<or> 60 * 1000000000 \<le> t0 - gasPriceUpdated cb"
  shows "SuggestGasPrice cb t0 t1 (Inl err) = (Inl err, cb, [SuggestGasPriceCall])"
  using assms by (auto simp add: SuggestGasPrice_def Since_less_Minute)

text \<open>
  Claim C6: when the call misses the cache, a maximum is configured and the delegate's
  suggestion, after the markup of 10 percent, is strictly above the maximum, the call
  returns exactly the maximum and leaves \<open>gasPrice\<close> and \<open>gasPriceUpdated\<close> (indeed
  every field) unchanged, so the maximum is not cached. The cache is missed when no price
  is cached or a minute or more has passed since it was. With a maximum of 100 and a
  suggestion of 95 the call returns 100.
\<close>

theorem SuggestGasPrice_ceiling:
  assumes "gasPrice cb = None \<or> 60 * 1000000000 \<le> t0 - gasPriceUpdated cb"
    and "maxPrice cb = Some m" and "m < AddPercentage g 10"
  shows "SuggestGasPrice cb t0 t1 (Inr g) = (Inr m, cb, [SuggestGasPriceCall])"
  using assms by (auto simp add: SuggestGasPrice_def Since_less_Minute Cmp_eq_1 Let_def)

theorem SuggestGasPrice_ceiling_witness:
  "gasPrice (NewContractBackend (Some 100)) = None
   \<and> maxPrice (NewContractBackend (Some 100)) = Some 100
   \<and> 100 < AddPercentage 95 10
   \<and> SuggestGasPrice (NewContractBackend (Some 100)) 1000 2000 (Inr 95) =
       (Inr 100, NewContractBackend (Some 100), [SuggestGasPriceCall])"
  using SuggestGasPrice_ceiling [of "NewContractBackend (Some 100)" 1000 100 95 2000]
  by (simp add: NewContractBackend_def AddPercentage_def)

text \<open>
  Claim C7: when the call misses the cache, the delegate returns the suggestion \<open>g\<close>
  and the marked-up price does not exceed a configured maximum, the call returns
  \<open>g + (g * 10) div 100\<close>, the 10 percent rounded down, and caches exactly that value
  with the current time.
\<close>

theorem SuggestGasPrice_markup_cached:
  assumes "gasPrice cb = None \<or> 60 * 1000000000 \<le> t0 - gasPriceUpdated cb"
    and "\<forall>m. maxPrice cb = Some m \<longrightarrow> g + (g * 10) div 100 \<le> m"
  shows "SuggestGasPrice cb t0 t1 (Inr g) =
           (Inr (g + (g * 10) div 100),
            cb\<lparr>gasPriceUpdated := t1, gasPrice := Some (g + (g * 10) div 100)\<rparr>,
            [SuggestGasPriceCall])"
  using assms
  by (auto simp add: SuggestGasPrice_def Since_less_Minute Cmp_eq_1 AddPercentage_def Let_def)

theorem SuggestGasPrice_markup_cached_witness:
  "gasPrice (NewContractBackend (Some 200)) = None
   \<and> maxPrice (NewContractBackend (Some 200)) = Some 200
   \<and> (95 :: int) + (95 * 10) div 100 \<le> 200
   \<and> SuggestGasPrice (NewContractBackend (Some 200)) 1000 2000 (Inr 95) =
       (Inr 104,
        \<lparr> localNonce = 0, lastServerNonce = 0, gasPrice = Some 104, gasPriceUpdated = 2000,
          maxPrice = Some 200 \<rparr>,
        [SuggestGasPriceCall])"
  using SuggestGasPrice_markup_cached [of "NewContractBackend (Some 200)" 1000 95 2000]
  by (simp add: NewContractBackend_def)

text \<open>
  Claim C8: while a price is cached and less than one minute has passed since it was
  cached, the call returns exactly the cached price, makes no call to the delegate and
  leaves every field unchanged, whatever the delegate would have answered; so a second
  call within the window returns the same value, again without a call.
\<close>

theorem SuggestGasPrice_cache_hit:
  assumes "gasPrice cb = Some p"
    and "t0 - gasPriceUpdated cb < 60 * 1000000000"
    and "t0' - gasPriceUpdated cb < 60 * 1000000000"
  shows "SuggestGasPrice cb t0 t1 reply = (Inr p, cb, [])
         \<and> SuggestGasPrice (fst (snd (SuggestGasPrice cb t0 t1 reply))) t0' t1' reply' =
             (Inr p, cb, [])"
  using assms by (simp add: SuggestGasPrice_def Since_less_Minute)

theorem SuggestGasPrice_cache_hit_witness:
  "gasPrice \<lparr> localNonce = 0, lastServerNonce = 0, gasPrice = Some 104, gasPriceUpdated = 2000,
              maxPrice = None \<rparr> = Some 104
   \<and> (59999999999 :: int) < 60 * 1000000000
   \<and> SuggestGasPrice
       \<lparr> localNonce = 0, lastServerNonce = 0, gasPrice = Some 104, gasPriceUpdated = 2000,
         maxPrice = None \<rparr>
       60000001999 60000002500 (Inr 300)
     = (Inr 104,
        \<lparr> localNonce = 0, lastServerNonce = 0, gasPrice = Some 104, gasPriceUpdated = 2000,
          maxPrice = None \<rparr>,
        [])"
  using SuggestGasPrice_cache_hit
    [of "\<lparr> localNonce = 0, lastServerNonce = 0, gasPrice = Some 104, gasPriceUpdated = 2000,
           maxPrice = None \<rparr>" 104 60000001999 3000 60000002500 "Inr 300" 0 "Inl (GoError [])"]
  by simp

text \<open>The window is closed at exactly one minute: the delegate is asked again.\<close>

lemma SuggestGasPrice_expired:
  "SuggestGasPrice
     \<lparr> localNonce = 0, lastServerNonce = 0, gasPrice = Some 104, gasPriceUpdated = 2000,
       maxPrice = None \<rparr>
     60000002000 60000002500 (Inr 300)
   = (Inr 330,
      \<lparr> localNonce = 0, lastServerNonce = 0, gasPrice = Some 330,
        gasPriceUpdated = 60000002500, maxPrice = None \<rparr>,
      [SuggestGasPriceCall])"
  by (simp add: SuggestGasPrice_def Since_less_Minute AddPercentage_def)

text \<open>
  The condition \<open>cacheWithinMax\<close> holds after construction and is kept by the two
  methods that do not touch the cache; neither changes \<open>maxPrice\<close>.
\<close>

lemma cacheWithinMax_NewContractBackend: "cacheWithinMax (NewContractBackend mp)"
  by (simp add: cacheWithinMax_def NewContractBackend_def split: option.splits)

lemma cacheWithinMax_PendingNonceAt:
  "cacheWithinMax cb \<Longrightarrow> cacheWithinMax (fst (snd (PendingNonceAt cb account reply)))"
  by (cases reply) (auto simp add: cacheWithinMax_def PendingNonceAt_def resetNonce_def Let_def
      split: option.splits)

lemma maxPrice_PendingNonceAt:
  "maxPrice (fst (snd (PendingNonceAt cb account reply))) = maxPrice cb"
  by (cases reply) (auto simp add: PendingNonceAt_def resetNonce_def Let_def
      split: option.splits)

lemma cacheWithinMax_SendTransaction:
  "cacheWithinMax cb \<Longrightarrow> SendTransaction cb tx reply = Inr (e, cb', cs) \<Longrightarrow> cacheWithinMax cb'"
  by (auto simp add: cacheWithinMax_def SendTransaction_def resetNonce_def incrementNonce_def
      Let_def split: option.splits sum.splits if_splits)

lemma maxPrice_SendTransaction:
  "SendTransaction cb tx reply = Inr (e, cb', cs) \<Longrightarrow> maxPrice cb' = maxPrice cb"
  by (auto simp add: SendTransaction_def resetNonce_def incrementNonce_def
      Let_def split: option.splits sum.splits if_splits)

text \<open>
  Claim C9: with a maximum gas price configured, every successful call to
  \<open>SuggestGasPrice\<close>, on a cache hit as on a cache miss, returns a value that is at
  most the maximum, provided that a cached value is at most the maximum
  (\<open>cacheWithinMax\<close>); the call keeps that condition and the maximum.
\<close>

theorem SuggestGasPrice_le_maxPrice:
  assumes "maxPrice cb = Some m" and "cacheWithinMax cb"
    and "SuggestGasPrice cb t0 t1 reply = (Inr v, cb', cs)"
  shows "v \<le> m \<and> maxPrice cb' = Some m \<and> cacheWithinMax cb'"
  using assms
  by (auto simp add: SuggestGasPrice_def cacheWithinMax_def Cmp_eq_1 Let_def
      split: if_splits sum.splits option.splits)

theorem SuggestGasPrice_le_maxPrice_witness:
  "maxPrice \<lparr> localNonce = 0, lastServerNonce = 0, gasPrice = Some 99, gasPriceUpdated = 2000,
              maxPrice = Some 100 \<rparr> = Some 100
   \<and> cacheWithinMax \<lparr> localNonce = 0, lastServerNonce = 0, gasPrice = Some 99,
                       gasPriceUpdated = 2000, maxPrice = Some 100 \<rparr>
   \<and> SuggestGasPrice
       \<lparr> localNonce = 0, lastServerNonce = 0, gasPrice = Some 99, gasPriceUpdated = 2000,
         maxPrice = Some 100 \<rparr>
       3000 4000 (Inr 95)
     = (Inr 99,
        \<lparr> localNonce = 0, lastServerNonce = 0, gasPrice = Some 99, gasPriceUpdated = 2000,
          maxPrice = Some 100 \<rparr>,
        [])
   \<and> SuggestGasPrice
       \<lparr> localNonce = 0, lastServerNonce = 0, gasPrice = Some 99, gasPriceUpdated = 2000,
         maxPrice = Some 100 \<rparr>
       60000002000 60000002500 (Inr 95)
     = (Inr 100,
        \<lparr> localNonce = 0, lastServerNonce = 0, gasPrice = Some 99, gasPriceUpdated = 2000,
          maxPrice = Some 100 \<rparr>,
        [SuggestGasPriceCall])
   \<and> (99 :: int) \<le> 100 \<and> (100 :: int) \<le> 100"
  using
    SuggestGasPrice_le_maxPrice
      [of "\<lparr> localNonce = 0, lastServerNonce = 0, gasPrice = Some 99, gasPriceUpdated = 2000,
             maxPrice = Some 100 \<rparr>" 100 3000 4000 "Inr 95" 99
          "\<lparr> localNonce = 0, lastServerNonce = 0, gasPrice = Some 99, gasPriceUpdated = 2000,
             maxPrice = Some 100 \<rparr>" "[]"]
    SuggestGasPrice_le_maxPrice
      [of "\<lparr> localNonce = 0, lastServerNonce = 0, gasPrice = Some 99, gasPriceUpdated = 2000,
             maxPrice = Some 100 \<rparr>" 100 60000002000 60000002500 "Inr 95" 100
          "\<lparr> localNonce = 0, lastServerNonce = 0, gasPrice = Some 99, gasPriceUpdated = 2000,
             maxPrice = Some 100 \<rparr>" "[SuggestGasPriceCall]"]
  by (simp add: SuggestGasPrice_def Since_less_Minute AddPercentage_def Cmp_def
      cacheWithinMax_def)

end
